theory Spec2Isabelle
  imports Complex_Main
begin

section \<open>Python values, exceptions and built-ins used by the sources\<close>

text \<open>
  The two modules (\<^verbatim>\<open>hy2dl/aux_functions/utils.py\<close> and
  \<^verbatim>\<open>hy2dl/datasetzoo/camelsde_caravan.py\<close>) are glue over torch, numpy, pandas, pathlib
  and os.  The functions of those libraries are not part of the repository: every
  library call is an argument of the model of the function that makes it, with a result
  type that lets the call raise.  What the repository's own code computes (branching,
  loops, dictionary and string handling, the order of the calls, which exceptions are
  caught) is written out.
\<close>

datatype py_exception =
    ValueError string            \<comment> \<open>raised by the source itself, with its message\<close>
  | UnboundLocalError string     \<comment> \<open>a local variable read before any assignment: its name\<close>
  | AttributeError string        \<comment> \<open>an attribute read that the object does not have: its name\<close>
  | KeyError string              \<comment> \<open>a dictionary key that is missing\<close>
  | IndexError
  | LibraryError string string   \<comment> \<open>raised inside a library call: type name and message\<close>

text \<open>
  Values that occur in \<^verbatim>\<open>model_configuration\<close> and in the parameter groups of a torch
  optimizer.  Floats are never computed with in these modules, only passed on, so their
  carrier is the type parameter \<open>'f\<close>; \<open>'o\<close> stands for any other object (tensors, tuples).
  A dictionary value has integer keys: the only dictionary the code looks into is the
  custom scheduler \<^verbatim>\<open>{epoch: learning_rate}\<close>, whose keys are compared with the integer
  epoch.
\<close>

datatype ('f, 'o) pyval =
    PyNone
  | PyInt int
  | PyFloat 'f
  | PyStr string
  | PyDict "(int \<times> ('f, 'o) pyval) list"
  | PyObj 'o

text \<open>A \<^verbatim>\<open>dict\<close> is an association list in insertion order; its keys are distinct.\<close>

type_synonym ('k, 'v) py_dict = "('k \<times> 'v) list"

definition dict_keys :: "('k, 'v) py_dict \<Rightarrow> 'k list" where
  "dict_keys d = map fst d"

definition dict_contains :: "('k, 'v) py_dict \<Rightarrow> 'k \<Rightarrow> bool" where
  \<comment> \<open>\<^verbatim>\<open>k in d\<close>\<close>
  "dict_contains d k = (k \<in> set (dict_keys d))"

fun dict_setitem :: "('k, 'v) py_dict \<Rightarrow> 'k \<Rightarrow> 'v \<Rightarrow> ('k, 'v) py_dict" where
  \<comment> \<open>\<^verbatim>\<open>d[k] = v\<close>: an existing key keeps its place, a new one goes last\<close>
  "dict_setitem [] k v = [(k, v)]"
| "dict_setitem ((k', v') # d) k v =
     (if k' = k then (k, v) # d else (k', v') # dict_setitem d k v)"

definition dict_get :: "(string, ('f, 'o) pyval) py_dict \<Rightarrow> string \<Rightarrow> ('f, 'o) pyval" where
  \<comment> \<open>\<^verbatim>\<open>d.get(k)\<close>: \<^verbatim>\<open>None\<close> for a missing key\<close>
  "dict_get d k = (case map_of d k of None \<Rightarrow> PyNone | Some v \<Rightarrow> v)"

definition isinstance_float :: "('f, 'o) pyval \<Rightarrow> bool" where
  "isinstance_float v = (case v of PyFloat _ \<Rightarrow> True | _ \<Rightarrow> False)"

definition isinstance_Dict :: "('f, 'o) pyval \<Rightarrow> bool" where
  "isinstance_Dict v = (case v of PyDict _ \<Rightarrow> True | _ \<Rightarrow> False)"

definition lower_char :: "char \<Rightarrow> char" where
  "lower_char c =
     (case map_of (zip ''ABCDEFGHIJKLMNOPQRSTUVWXYZ'' ''abcdefghijklmnopqrstuvwxyz'') c of
        Some l \<Rightarrow> l
      | None \<Rightarrow> c)"

definition str_lower :: "string \<Rightarrow> string" where
  \<comment> \<open>\<^verbatim>\<open>s.lower()\<close> on ASCII text\<close>
  "str_lower s = map lower_char s"

fun str_nat :: "nat \<Rightarrow> string" where
  "str_nat n =
     (if n < 10 then [''0123456789'' ! n]
      else str_nat (n div 10) @ [''0123456789'' ! (n mod 10)])"

definition str_int :: "int \<Rightarrow> string" where
  \<comment> \<open>\<^verbatim>\<open>str(i)\<close>, as an f-string formats an integer\<close>
  "str_int i = (if i < 0 then CHR ''-'' # str_nat (nat (- i)) else str_nat (nat i))"

definition sorted_reverse :: "int list \<Rightarrow> int list" where
  \<comment> \<open>\<^verbatim>\<open>sorted(xs, reverse=True)\<close>\<close>
  "sorted_reverse xs = rev (sort xs)"


section \<open>The optimizer manager (utils.py, class Optimizer)\<close>

text \<open>
  A torch optimizer, as far as the source looks into it: the list \<^verbatim>\<open>param_groups\<close> of
  dictionaries, and the rest of its state (\<open>'os\<close>).
\<close>

record ('f, 'o, 'os) torch_optimizer =
  param_groups :: "(string, ('f, 'o) pyval) py_dict list"
  opt_state :: 'os

text \<open>
  An \<^verbatim>\<open>Optimizer\<close> object.  \<^verbatim>\<open>scheduler\<close> is assigned in one branch of
  \<^verbatim>\<open>__init__\<close> only and \<^verbatim>\<open>model\<close> in none, so both attributes may be absent
  (\<open>None\<close> here); \<^verbatim>\<open>model\<close>, when some caller has set it, is a reference to a model.
\<close>

record ('f, 'o, 'os, 'sch, 'm) Optimizer =
  learning_rate :: "('f, 'o) pyval"
  optimizer :: "('f, 'o, 'os) torch_optimizer"
  learning_rate_type :: string
  scheduler :: "'sch option"
  model :: "'m option"

fun find_learning_rate_loop ::
  "(int, ('f, 'o) pyval) py_dict \<Rightarrow> int \<Rightarrow> int list \<Rightarrow> py_exception + ('f, 'o) pyval" where
  "find_learning_rate_loop d epoch [] = Inr PyNone"
| "find_learning_rate_loop d epoch (key # keys) =
     (if epoch \<ge> key
      then (case map_of d key of None \<Rightarrow> Inl (KeyError (str_int key)) | Some v \<Rightarrow> Inr v)
      else find_learning_rate_loop d epoch keys)"

definition find_learning_rate :: "('f, 'o) pyval \<Rightarrow> int \<Rightarrow> py_exception + ('f, 'o) pyval" where
  \<comment> \<open>\<^verbatim>\<open>Optimizer._find_learning_rate\<close>, on the value of \<^verbatim>\<open>self.learning_rate\<close>\<close>
  "find_learning_rate lr epoch =
     (case lr of
        PyDict d \<Rightarrow> find_learning_rate_loop d epoch (sorted_reverse (dict_keys d))
      | _ \<Rightarrow> Inl (AttributeError ''keys''))"

text \<open>
  \<^verbatim>\<open>Optimizer.__init__\<close>.  The library calls are arguments: \<open>parameters\<close> is
  \<^verbatim>\<open>model.parameters()\<close>, \<open>Adam\<close> is \<^verbatim>\<open>torch.optim.Adam(params, lr=...)\<close> and \<open>StepLR\<close> is
  \<^verbatim>\<open>torch.optim.lr_scheduler.StepLR(optimizer, step_size=..., gamma=...)\<close>, which returns
  the scheduler and the optimizer it has attached itself to.  The local variable
  \<^verbatim>\<open>optimizer_class\<close> is \<open>None\<close> while unassigned.  Python evaluates the callee of a call
  before its arguments, so the unbound variable is reported before
  \<^verbatim>\<open>model.parameters()\<close> runs.
\<close>

definition optimizer_class_of ::
  "'adam \<Rightarrow> string option \<Rightarrow> 'adam option" where
  "optimizer_class_of Adam opt_name =
     (if opt_name = None \<or> str_lower (the opt_name) = ''adam'' then Some Adam else None)"

definition Optimizer_init ::
  "('m \<Rightarrow> py_exception + 'ps) \<Rightarrow>
   ('ps \<Rightarrow> ('f, 'o) pyval \<Rightarrow> py_exception + ('f, 'o, 'os) torch_optimizer) \<Rightarrow>
   (('f, 'o, 'os) torch_optimizer \<Rightarrow> ('f, 'o) pyval \<Rightarrow> ('f, 'o) pyval \<Rightarrow>
      py_exception + 'sch \<times> ('f, 'o, 'os) torch_optimizer) \<Rightarrow>
   'm \<Rightarrow> (string, ('f, 'o) pyval) py_dict \<Rightarrow> string option \<Rightarrow>
   py_exception + ('f, 'o, 'os, 'sch, 'm) Optimizer" where
  "Optimizer_init parameters Adam StepLR mdl model_configuration opt_name =
     (let optimizer_class = optimizer_class_of Adam opt_name;
          lr = dict_get model_configuration ''learning_rate''
      in
      if isinstance_float lr
         \<and> \<not> dict_contains model_configuration ''adapt_learning_rate_epoch''
         \<and> \<not> dict_contains model_configuration ''adapt_gamma_learning_rate''
      then
        (case optimizer_class of
           None \<Rightarrow> Inl (UnboundLocalError ''optimizer_class'')
         | Some cls \<Rightarrow>
            (case parameters mdl of
               Inl e \<Rightarrow> Inl e
             | Inr ps \<Rightarrow>
                (case cls ps lr of
                   Inl e \<Rightarrow> Inl e
                 | Inr opt \<Rightarrow>
                     Inr \<lparr>learning_rate = lr, optimizer = opt,
                          learning_rate_type = ''constant'',
                          scheduler = None, model = None\<rparr>)))
      else if isinstance_float lr
         \<and> dict_contains model_configuration ''adapt_learning_rate_epoch''
         \<and> dict_contains model_configuration ''adapt_gamma_learning_rate''
      then
        (case optimizer_class of
           None \<Rightarrow> Inl (UnboundLocalError ''optimizer_class'')
         | Some cls \<Rightarrow>
            (case parameters mdl of
               Inl e \<Rightarrow> Inl e
             | Inr ps \<Rightarrow>
                (case cls ps lr of
                   Inl e \<Rightarrow> Inl e
                 | Inr opt \<Rightarrow>
                    (case StepLR opt
                            (dict_get model_configuration ''adapt_learning_rate_epoch'')
                            (dict_get model_configuration ''adapt_gamma_learning_rate'') of
                       Inl e \<Rightarrow> Inl e
                     | Inr (sch, opt') \<Rightarrow>
                         Inr \<lparr>learning_rate = lr, optimizer = opt',
                              learning_rate_type = ''scheduler'',
                              scheduler = Some sch, model = None\<rparr>))))
      else if isinstance_Dict lr
      then
        (case optimizer_class of
           None \<Rightarrow> Inl (UnboundLocalError ''optimizer_class'')
         | Some cls \<Rightarrow>
            (case parameters mdl of
               Inl e \<Rightarrow> Inl e
             | Inr ps \<Rightarrow>
                (case find_learning_rate lr 1 of
                   Inl e \<Rightarrow> Inl e
                 | Inr lr1 \<Rightarrow>
                    (case cls ps lr1 of
                       Inl e \<Rightarrow> Inl e
                     | Inr opt \<Rightarrow>
                         Inr \<lparr>learning_rate = lr, optimizer = opt,
                              learning_rate_type = ''custom_scheduler'',
                              scheduler = None, model = None\<rparr>))))
      else Inl (ValueError
             ''Please indicate a valid type of learning rate in the configuration.''))"


fun set_lr_loop ::
  "('f, 'o) pyval \<Rightarrow> int \<Rightarrow> (string, ('f, 'o) pyval) py_dict list \<Rightarrow>
   py_exception option \<times> (string, ('f, 'o) pyval) py_dict list" where
  \<comment> \<open>\<^verbatim>\<open>for param_group in self.optimizer.param_groups: param_group["lr"] = ...\<close>\<close>
  "set_lr_loop lr epoch [] = (None, [])"
| "set_lr_loop lr epoch (param_group # groups) =
     (case find_learning_rate lr epoch of
        Inl e \<Rightarrow> (Some e, param_group # groups)
      | Inr v \<Rightarrow>
         (case set_lr_loop lr epoch groups of
            (exc, groups') \<Rightarrow> (exc, dict_setitem param_group ''lr'' v # groups')))"

text \<open>
  \<^verbatim>\<open>Optimizer.update_optimizer_lr\<close>.  \<open>scheduler_step\<close> is \<^verbatim>\<open>self.scheduler.step()\<close>: it
  acts on the scheduler and on the optimizer the scheduler is attached to.  A method that
  mutates \<^verbatim>\<open>self\<close> returns the exception raised, if any, and the object as it then is.
\<close>

definition update_optimizer_lr ::
  "('sch \<Rightarrow> ('f, 'o, 'os) torch_optimizer \<Rightarrow>
      py_exception option \<times> 'sch \<times> ('f, 'o, 'os) torch_optimizer) \<Rightarrow>
   ('f, 'o, 'os, 'sch, 'm) Optimizer \<Rightarrow> int \<Rightarrow>
   py_exception option \<times> ('f, 'o, 'os, 'sch, 'm) Optimizer" where
  "update_optimizer_lr scheduler_step self epoch =
     (if learning_rate_type self = ''scheduler'' then
        (case scheduler self of
           None \<Rightarrow> (Some (AttributeError ''scheduler''), self)
         | Some sch \<Rightarrow>
            (case scheduler_step sch (optimizer self) of
               (exc, sch', opt') \<Rightarrow> (exc, self\<lparr>scheduler := Some sch', optimizer := opt'\<rparr>)))
      else if learning_rate_type self = ''custom_scheduler'' then
        (case set_lr_loop (learning_rate self) epoch (param_groups (optimizer self)) of
           (exc, groups') \<Rightarrow>
             (exc, self\<lparr>optimizer := (optimizer self)\<lparr>param_groups := groups'\<rparr>\<rparr>))
      else (None, self))"


section \<open>Process-wide state\<close>

text \<open>
  What a call can change outside its own locals: the four random generators, the
  parameter tensors of the models (weights and gradients, reached from a model and from
  the optimizer built on it), the dictionaries that callers hold references to, the file
  system and the standard output.
\<close>

record ('w, 'gr) net =
  weights :: 'w
  grads :: 'gr

record ('g, 'ps, 'w, 'gr, 'v, 'fs) world =
  rng_random :: 'g
  rng_numpy :: 'g
  rng_torch_cuda :: 'g
  rng_torch :: 'g
  tensors :: "'ps \<Rightarrow> ('w, 'gr) net"
  heap :: "nat \<Rightarrow> (string, 'v) py_dict"
  fs :: 'fs
  stdout :: "string list"

definition print :: "string \<Rightarrow> ('g, 'ps, 'w, 'gr, 'v, 'fs) world \<Rightarrow> ('g, 'ps, 'w, 'gr, 'v, 'fs) world" where
  "print line w = w\<lparr>stdout := stdout w @ [line]\<rparr>"

text \<open>
  The body of the \<^verbatim>\<open>try\<close> of \<^verbatim>\<open>clip_grad_and_step\<close>: read \<^verbatim>\<open>self.model\<close>, call its
  \<^verbatim>\<open>parameters()\<close>, and call \<^verbatim>\<open>torch.nn.utils.clip_grad_norm_\<close> (\<open>clip\<close>) with
  \<^verbatim>\<open>max_norm=1, error_if_nonfinite=True\<close>.  The library function rescales the gradients
  of those parameters in place and may raise.
\<close>

definition try_clip_grad_norm ::
  "('m \<Rightarrow> py_exception + 'ps) \<Rightarrow>
   ('gr \<Rightarrow> int \<Rightarrow> bool \<Rightarrow> py_exception option \<times> 'gr) \<Rightarrow>
   ('g, 'ps, 'w, 'gr, 'v, 'fs) world \<Rightarrow> ('f, 'o, 'os, 'sch, 'm) Optimizer \<Rightarrow>
   py_exception option \<times> ('g, 'ps, 'w, 'gr, 'v, 'fs) world" where
  "try_clip_grad_norm parameters clip w self =
     (case model self of
        None \<Rightarrow> (Some (AttributeError ''model''), w)
      | Some m \<Rightarrow>
         (case parameters m of
            Inl e \<Rightarrow> (Some e, w)
          | Inr ps \<Rightarrow>
             (case clip (grads (tensors w ps)) 1 True of
                (exc, g') \<Rightarrow>
                  (exc, w\<lparr>tensors := (tensors w)(ps := (tensors w ps)\<lparr>grads := g'\<rparr>)\<rparr>))))"

text \<open>
  \<^verbatim>\<open>Optimizer.clip_grad_and_step\<close>.  \<open>str_exc\<close> is \<^verbatim>\<open>str(e)\<close> as the f-string formats
  the exception; \<open>opt_step\<close> is \<^verbatim>\<open>self.optimizer.step()\<close>, which updates the optimizer and
  the tensors it holds.
\<close>

definition clip_grad_and_step ::
  "('m \<Rightarrow> py_exception + 'ps) \<Rightarrow>
   ('gr \<Rightarrow> int \<Rightarrow> bool \<Rightarrow> py_exception option \<times> 'gr) \<Rightarrow>
   (py_exception \<Rightarrow> string) \<Rightarrow>
   (('f, 'o, 'os) torch_optimizer \<Rightarrow> ('ps \<Rightarrow> ('w, 'gr) net) \<Rightarrow>
      py_exception option \<times> ('f, 'o, 'os) torch_optimizer \<times> ('ps \<Rightarrow> ('w, 'gr) net)) \<Rightarrow>
   ('g, 'ps, 'w, 'gr, 'v, 'fs) world \<Rightarrow> ('f, 'o, 'os, 'sch, 'm) Optimizer \<Rightarrow> int \<Rightarrow> int \<Rightarrow>
   py_exception option \<times> ('f, 'o, 'os, 'sch, 'm) Optimizer \<times> ('g, 'ps, 'w, 'gr, 'v, 'fs) world" where
  "clip_grad_and_step parameters clip str_exc opt_step w self epoch batch =
     (case try_clip_grad_norm parameters clip w self of
        (Some e, w') \<Rightarrow>
          (None, self,
           print (''Error: '' @ str_exc e)
             (print (''Batch '' @ str_int batch @ '' in Epoch '' @ str_int epoch
                     @ '' was skipped during optimization due to gradient instability.'') w'))
      | (None, w') \<Rightarrow>
          (case opt_step (optimizer self) (tensors w') of
             (exc, opt', tensors') \<Rightarrow>
               (exc, self\<lparr>optimizer := opt'\<rparr>, w'\<lparr>tensors := tensors'\<rparr>)))"


section \<open>The free functions of utils.py\<close>


text \<open>
  \<^verbatim>\<open>upload_to_device\<close>.  \<open>sample\<close> is the address of the caller's dictionary and \<open>to\<close> is the
  method \<^verbatim>\<open>.to(device)\<close> of its values.  The loop runs over the keys the dictionary has
  when the loop starts; each step reads and writes the dictionary in the heap.
\<close>

definition dict_getitem :: "(string, 'v) py_dict \<Rightarrow> string \<Rightarrow> py_exception + 'v" where
  \<comment> \<open>\<^verbatim>\<open>d[k]\<close>\<close>
  "dict_getitem d k = (case map_of d k of None \<Rightarrow> Inl (KeyError k) | Some v \<Rightarrow> Inr v)"

fun upload_loop ::
  "('v \<Rightarrow> string \<Rightarrow> py_exception + 'v) \<Rightarrow> ('g, 'ps, 'w, 'gr, 'v, 'fs) world \<Rightarrow> nat \<Rightarrow>
   string \<Rightarrow> string list \<Rightarrow> py_exception option \<times> ('g, 'ps, 'w, 'gr, 'v, 'fs) world" where
  "upload_loop to w sample device [] = (None, w)"
| "upload_loop to w sample device (key # keys) =
     (if key \<notin> set [''basin'', ''date''] then
        (case dict_getitem (heap w sample) key of
           Inl e \<Rightarrow> (Some e, w)
         | Inr v \<Rightarrow>
            (case to v device of
               Inl e \<Rightarrow> (Some e, w)
             | Inr v' \<Rightarrow>
                 upload_loop to
                   (w\<lparr>heap := (heap w)(sample := dict_setitem (heap w sample) key v')\<rparr>)
                   sample device keys))
      else upload_loop to w sample device keys)"

definition upload_to_device ::
  "('v \<Rightarrow> string \<Rightarrow> py_exception + 'v) \<Rightarrow> ('g, 'ps, 'w, 'gr, 'v, 'fs) world \<Rightarrow> nat \<Rightarrow>
   string \<Rightarrow> (py_exception + nat) \<times> ('g, 'ps, 'w, 'gr, 'v, 'fs) world" where
  "upload_to_device to w sample device =
     (case upload_loop to w sample device (dict_keys (heap w sample)) of
        (Some e, w') \<Rightarrow> (Inl e, w')
      | (None, w') \<Rightarrow> (Inr sample, w'))"




section \<open>The unified CAMELS-DE / CARAVAN dataset (camelsde_caravan.py)\<close>





















section \<open>A small instance of the libraries\<close>

text \<open>
  The theorems below hold for whatever the library calls compute.  To run the model on
  concrete inputs, the calls are instantiated with small functions: a model and its
  parameters are numbers, weights and gradients are integers, a tensor of a sample is a
  string naming where it lives, a generator's state is an integer, the file system is the
  list of the paths that exist, and a table is its index labels and its column names.
\<close>

definition ex_parameters :: "nat \<Rightarrow> py_exception + nat" where
  "ex_parameters m = Inr m"

definition ex_Adam ::
  "nat \<Rightarrow> (real, unit) pyval \<Rightarrow> py_exception + (real, unit, nat) torch_optimizer" where
  "ex_Adam ps lr = Inr \<lparr>param_groups = [[(''lr'', lr)]], opt_state = 0\<rparr>"

definition ex_StepLR ::
  "(real, unit, nat) torch_optimizer \<Rightarrow> (real, unit) pyval \<Rightarrow> (real, unit) pyval \<Rightarrow>
   py_exception + nat \<times> (real, unit, nat) torch_optimizer" where
  "ex_StepLR opt step_size gamma = Inr (0, opt)"

definition ex_scheduler_step ::
  "nat \<Rightarrow> (real, unit, nat) torch_optimizer \<Rightarrow>
   py_exception option \<times> nat \<times> (real, unit, nat) torch_optimizer" where
  "ex_scheduler_step sch opt = (None, Suc sch, opt)"




definition ex_to :: "string \<Rightarrow> string \<Rightarrow> py_exception + string" where
  "ex_to v device = Inr (v @ ''@'' @ device)"




definition ex_os_makedirs :: "string list \<Rightarrow> string \<Rightarrow> py_exception option \<times> string list" where
  "ex_os_makedirs files p = (None, files @ [p])"

definition ex_file_open ::
  "string list \<Rightarrow> string \<Rightarrow> string \<Rightarrow> (py_exception + string) \<times> string list" where
  "ex_file_open files p mode = (Inr p, if p \<in> set files then files else files @ [p])"



definition ex_optimizer :: "(real, unit, nat, nat, nat) Optimizer" where
  "ex_optimizer =
     \<lparr>learning_rate = PyDict [(5, PyFloat 0.001), (10, PyFloat 0.0005)],
      optimizer = \<lparr>param_groups = [[(''lr'', PyFloat 0.001), (''eps'', PyObj ())]],
                   opt_state = 0\<rparr>,
      learning_rate_type = ''custom_scheduler'',
      scheduler = None,
      model = Some 0\<rparr>"

definition ex_world :: "(int, nat, int, int, string, string list) world" where
  "ex_world =
     \<lparr>rng_random = 0, rng_numpy = 0, rng_torch_cuda = 0, rng_torch = 0,
      tensors = (\<lambda>ps. \<lparr>weights = 10, grads = 5\<rparr>),
      heap = (\<lambda>a. [(''x_d'', ''t1''), (''basin'', ''b''), (''y_obs'', ''t2'')]),
      fs = [],
      stdout = []\<rparr>"







section \<open>Notions used to state the properties\<close>

definition moved ::
  "('v \<Rightarrow> string \<Rightarrow> py_exception + 'v) \<Rightarrow> string \<Rightarrow> string set \<Rightarrow> string \<times> 'v \<Rightarrow> string \<times> 'v" where
  \<comment> \<open>an entry of the sample once the loop of \<^verbatim>\<open>upload_to_device\<close> has visited the keys \<open>ks\<close>\<close>
  "moved to device ks kv =
     (if fst kv \<in> ks \<and> fst kv \<notin> {''basin'', ''date''}
      then (fst kv, projr (to (snd kv) device))
      else kv)"




section \<open>Properties of the optimizer manager\<close>

subsection \<open>Dictionaries and the custom scheduler\<close>

lemma map_of_dict_setitem:
  "map_of (dict_setitem d k v) k' = (if k' = k then Some v else map_of d k')"
  by (induction d) auto

lemma dict_setitem_distinct:
  "distinct (map fst d) \<Longrightarrow> (k, v0) \<in> set d \<Longrightarrow>
   dict_setitem d k v = map (\<lambda>kv. if fst kv = k then (k, v) else kv) d"
proof (induction d)
  case Nil
  then show ?case by simp
next
  case (Cons a d)
  show ?case
  proof (cases "fst a = k")
    case True
    then have "\<forall>kv \<in> set d. fst kv \<noteq> k"
      using Cons.prems(1) by (force simp: image_iff)
    then have "map (\<lambda>kv. if fst kv = k then (k, v) else kv) d = d"
      by (induction d) auto
    with True show ?thesis by (cases a) simp
  next
    case False
    then have "(k, v0) \<in> set d" using Cons.prems(2) by auto
    moreover have "distinct (map fst d)" using Cons.prems(1) by simp
    ultimately show ?thesis using Cons.IH False by (cases a) simp
  qed
qed



lemma find_learning_rate_loop_descending:
  assumes "sorted (rev keys)" and "k \<in> set keys" and "k \<le> epoch"
    and "\<forall>k' \<in> set keys. k' \<le> epoch \<longrightarrow> k' \<le> k" and "map_of d k = Some v"
  shows "find_learning_rate_loop d epoch keys = Inr v"
  using assms
proof (induction keys)
  case Nil
  then show ?case by simp
next
  case (Cons key keys)
  show ?case
  proof (cases "epoch \<ge> key")
    case True
    have "k \<le> key" using Cons.prems(1,2) by (auto simp: sorted_append)
    moreover have "key \<le> k" using Cons.prems(4) True by simp
    ultimately have "key = k" by simp
    with True Cons.prems(5) show ?thesis by simp
  next
    case False
    then have "k \<in> set keys" using Cons.prems(2,3) by auto
    moreover have "sorted (rev keys)" using Cons.prems(1) by (simp add: sorted_append)
    ultimately have "find_learning_rate_loop d epoch keys = Inr v"
      using Cons.IH Cons.prems(3,4,5) by simp
    with False show ?thesis by simp
  qed
qed

lemma find_learning_rate_loop_none:
  "\<forall>k \<in> set keys. epoch < k \<Longrightarrow> find_learning_rate_loop d epoch keys = Inr PyNone"
  by (induction keys) auto

lemma set_lr_loop_ok:
  "find_learning_rate lr epoch = Inr v \<Longrightarrow>
   set_lr_loop lr epoch groups = (None, map (\<lambda>g. dict_setitem g ''lr'' v) groups)"
  by (induction groups) auto


lemma optimizer_class_of_other:
  "opt_name = Some name \<Longrightarrow> str_lower name \<noteq> ''adam'' \<Longrightarrow>
   optimizer_class_of Adam opt_name = None"
  by (simp add: optimizer_class_of_def)

lemma Optimizer_init_sets_no_model:
  "Optimizer_init parameters Adam StepLR mdl cfg opt_name = Inr self \<Longrightarrow> model self = None"
  by (auto simp: Optimizer_init_def Let_def
           split: if_splits option.splits sum.splits prod.splits)

subsection \<open>Gradient clipping and the optimizer step\<close>



lemma clip_grad_and_step_after_init_never_steps:
  fixes w :: "('g, 'ps, 'w, 'gr, 'v, 'fs) world"
  assumes "Optimizer_init parameters Adam StepLR mdl cfg opt_name = Inr self"
  shows "clip_grad_and_step parameters' clip str_exc opt_step w self epoch batch =
     (None, self,
      w\<lparr>stdout := stdout w @
           [''Batch '' @ str_int batch @ '' in Epoch '' @ str_int epoch
              @ '' was skipped during optimization due to gradient instability.'',
            ''Error: '' @ str_exc (AttributeError ''model'')]\<rparr>)"
  using Optimizer_init_sets_no_model [OF assms]
  by (simp add: clip_grad_and_step_def try_clip_grad_norm_def print_def)

subsection \<open>The learning-rate mode chosen by the constructor\<close>




text \<open>
  C8 (as amended).  For an optimizer name that is not \<^verbatim>\<open>"adam"\<close> in any letter case,
  \<^verbatim>\<open>optimizer_class\<close> is never assigned and no object is ever built: when the
  configuration has one of the three learning-rate shapes the constructor fails with
  \<^verbatim>\<open>UnboundLocalError\<close> at the first use of the variable, and when it has none of them the
  \<^verbatim>\<open>ValueError\<close> of the last branch is raised, since that branch does not use the variable.
\<close>

theorem Optimizer_init_unsupported_optimizer:
  assumes "opt_name = Some name" and "str_lower name \<noteq> ''adam''"
  shows
    "optimizer_class_of Adam opt_name = None
     \<and> (isinstance_float (dict_get cfg ''learning_rate'')
          \<and> \<not> dict_contains cfg ''adapt_learning_rate_epoch''
          \<and> \<not> dict_contains cfg ''adapt_gamma_learning_rate''
        \<or> isinstance_float (dict_get cfg ''learning_rate'')
          \<and> dict_contains cfg ''adapt_learning_rate_epoch''
          \<and> dict_contains cfg ''adapt_gamma_learning_rate''
        \<or> isinstance_Dict (dict_get cfg ''learning_rate'')
        \<longrightarrow> Optimizer_init parameters Adam StepLR mdl cfg opt_name
              = Inl (UnboundLocalError ''optimizer_class''))
     \<and> (\<not> (isinstance_float (dict_get cfg ''learning_rate'')
              \<and> \<not> dict_contains cfg ''adapt_learning_rate_epoch''
              \<and> \<not> dict_contains cfg ''adapt_gamma_learning_rate''
            \<or> isinstance_float (dict_get cfg ''learning_rate'')
              \<and> dict_contains cfg ''adapt_learning_rate_epoch''
              \<and> dict_contains cfg ''adapt_gamma_learning_rate''
            \<or> isinstance_Dict (dict_get cfg ''learning_rate''))
        \<longrightarrow> Optimizer_init parameters Adam StepLR mdl cfg opt_name
              = Inl (ValueError
                   ''Please indicate a valid type of learning rate in the configuration.''))"
proof -
  have cls: "optimizer_class_of Adam opt_name = None"
    using assms by (rule optimizer_class_of_other)
  show ?thesis
    using cls by (auto simp: Optimizer_init_def Let_def)
qed

text \<open>
  \<^verbatim>\<open>UnboundLocalError\<close> is not the outcome for every configuration: with an empty
  configuration and the name \<^verbatim>\<open>"sgd"\<close> the constructor raises \<^verbatim>\<open>ValueError\<close>.
\<close>

theorem Optimizer_init_unsupported_optimizer_counterexample:
  "str_lower ''sgd'' \<noteq> ''adam''
   \<and> Optimizer_init ex_parameters ex_Adam ex_StepLR 0 [] (Some ''sgd'')
       = Inl (ValueError ''Please indicate a valid type of learning rate in the configuration.'')
   \<and> Optimizer_init ex_parameters ex_Adam ex_StepLR 0 [] (Some ''sgd'')
       \<noteq> Inl (UnboundLocalError ''optimizer_class'')"
  by (simp add: Optimizer_init_def optimizer_class_of_def str_lower_def lower_char_def
        dict_get_def dict_contains_def dict_keys_def isinstance_float_def isinstance_Dict_def)

theorem Optimizer_init_unsupported_optimizer_witness:
  "optimizer_class_of ex_Adam (Some ''RMSprop'') = None
   \<and> Optimizer_init ex_parameters ex_Adam ex_StepLR 0
        [(''learning_rate'', PyFloat 0.001), (''adapt_learning_rate_epoch'', PyInt 10),
         (''adapt_gamma_learning_rate'', PyFloat 0.5)] (Some ''RMSprop'')
       = Inl (UnboundLocalError ''optimizer_class'')
   \<and> Optimizer_init ex_parameters ex_Adam ex_StepLR 0
        [(''learning_rate'', PyInt 1)] (Some ''RMSprop'')
       = Inl (ValueError ''Please indicate a valid type of learning rate in the configuration.'')"
proof -
  have n: "str_lower ''RMSprop'' \<noteq> ''adam''"
    by (simp add: str_lower_def lower_char_def)
  note t = Optimizer_init_unsupported_optimizer
      [where opt_name = "Some ''RMSprop''" and name = "''RMSprop''" and Adam = ex_Adam
         and parameters = ex_parameters and StepLR = ex_StepLR and mdl = 0, OF refl n]
  have "optimizer_class_of ex_Adam (Some ''RMSprop'') = None"
    using t [THEN conjunct1] .
  moreover have "Optimizer_init ex_parameters ex_Adam ex_StepLR 0
        [(''learning_rate'', PyFloat 0.001), (''adapt_learning_rate_epoch'', PyInt 10),
         (''adapt_gamma_learning_rate'', PyFloat 0.5)] (Some ''RMSprop'')
       = Inl (UnboundLocalError ''optimizer_class'')"
    using t [where cfg = "[(''learning_rate'', PyFloat 0.001), (''adapt_learning_rate_epoch'', PyInt 10),
         (''adapt_gamma_learning_rate'', PyFloat 0.5)]", THEN conjunct2, THEN conjunct1]
    by (simp add: dict_get_def dict_contains_def dict_keys_def isinstance_float_def)
  moreover have "Optimizer_init ex_parameters ex_Adam ex_StepLR 0
        [(''learning_rate'', PyInt 1)] (Some ''RMSprop'')
       = Inl (ValueError ''Please indicate a valid type of learning rate in the configuration.'')"
    using t [where cfg = "[(''learning_rate'', PyInt 1)]", THEN conjunct2, THEN conjunct2]
    by (simp add: dict_get_def dict_contains_def dict_keys_def isinstance_float_def
          isinstance_Dict_def)
  ultimately show ?thesis by simp
qed

subsection \<open>Looking up and updating the learning rate\<close>

text \<open>
  C9.  For a custom-scheduler dictionary \<open>d\<close> and an epoch, \<^verbatim>\<open>_find_learning_rate\<close>
  returns the value stored under the greatest key that is at most the epoch.  When the
  epoch is below every key (or there is no key) it returns \<^verbatim>\<open>None\<close>, and
  \<^verbatim>\<open>update_optimizer_lr\<close> in custom-scheduler mode then stores \<^verbatim>\<open>None\<close> as the \<^verbatim>\<open>lr\<close> of
  every parameter group.
\<close>

theorem find_learning_rate_greatest_key:
  "(\<forall>k v. k \<in> set (dict_keys d) \<and> k \<le> epoch
           \<and> (\<forall>k' \<in> set (dict_keys d). k' \<le> epoch \<longrightarrow> k' \<le> k)
           \<and> map_of d k = Some v
        \<longrightarrow> find_learning_rate (PyDict d) epoch = Inr v)
   \<and> ((\<forall>k \<in> set (dict_keys d). epoch < k) \<longrightarrow>
        find_learning_rate (PyDict d) epoch = Inr PyNone
        \<and> (learning_rate self = PyDict d \<and> learning_rate_type self = ''custom_scheduler'' \<longrightarrow>
             fst (update_optimizer_lr scheduler_step self epoch) = None
             \<and> param_groups (optimizer (snd (update_optimizer_lr scheduler_step self epoch)))
                 = map (\<lambda>g. dict_setitem g ''lr'' PyNone) (param_groups (optimizer self))
             \<and> (\<forall>g \<in> set (param_groups
                             (optimizer (snd (update_optimizer_lr scheduler_step self epoch)))).
                   map_of g ''lr'' = Some PyNone)))"
proof (intro conjI allI impI)
  fix k v
  assume h: "k \<in> set (dict_keys d) \<and> k \<le> epoch
           \<and> (\<forall>k' \<in> set (dict_keys d). k' \<le> epoch \<longrightarrow> k' \<le> k)
           \<and> map_of d k = Some v"
  have "sorted (rev (sorted_reverse (dict_keys d)))"
    by (simp add: sorted_reverse_def)
  moreover have "set (sorted_reverse (dict_keys d)) = set (dict_keys d)"
    by (simp add: sorted_reverse_def)
  ultimately have "find_learning_rate_loop d epoch (sorted_reverse (dict_keys d)) = Inr v"
    using h find_learning_rate_loop_descending [of "sorted_reverse (dict_keys d)" k epoch d v]
    by simp
  then show "find_learning_rate (PyDict d) epoch = Inr v"
    by (simp add: find_learning_rate_def)
next
  assume a: "\<forall>k \<in> set (dict_keys d). epoch < k"
  then show n: "find_learning_rate (PyDict d) epoch = Inr PyNone"
    by (simp add: find_learning_rate_def find_learning_rate_loop_none sorted_reverse_def)
  assume s: "learning_rate self = PyDict d \<and> learning_rate_type self = ''custom_scheduler''"
  have u: "update_optimizer_lr scheduler_step self epoch =
        (None, self\<lparr>optimizer := (optimizer self)
           \<lparr>param_groups := map (\<lambda>g. dict_setitem g ''lr'' PyNone)
                                  (param_groups (optimizer self))\<rparr>\<rparr>)"
    using s n by (simp add: update_optimizer_lr_def set_lr_loop_ok)
  show "fst (update_optimizer_lr scheduler_step self epoch) = None"
    by (simp add: u)
  show "param_groups (optimizer (snd (update_optimizer_lr scheduler_step self epoch)))
          = map (\<lambda>g. dict_setitem g ''lr'' PyNone) (param_groups (optimizer self))"
    by (simp add: u)
  show "\<forall>g \<in> set (param_groups
                   (optimizer (snd (update_optimizer_lr scheduler_step self epoch)))).
           map_of g ''lr'' = Some PyNone"
    by (auto simp: u map_of_dict_setitem)
qed

theorem find_learning_rate_greatest_key_witness:
  "find_learning_rate (PyDict [(5, PyFloat (0.001::real)), (10, PyFloat 0.0005)] :: (real, unit) pyval) 7
     = Inr (PyFloat 0.001)
   \<and> find_learning_rate (learning_rate ex_optimizer) 3 = Inr PyNone
   \<and> param_groups (optimizer (snd (update_optimizer_lr ex_scheduler_step ex_optimizer 3)))
     = [[(''lr'', PyNone), (''eps'', PyObj ())]]"
proof -
  let ?d = "[(5, PyFloat (0.001::real)), (10, PyFloat 0.0005)] :: (int \<times> (real, unit) pyval) list"
  note t = find_learning_rate_greatest_key
      [where d = ?d and self = ex_optimizer and scheduler_step = ex_scheduler_step]
  have "5 \<in> set (dict_keys ?d) \<and> (5::int) \<le> 7
          \<and> (\<forall>k' \<in> set (dict_keys ?d). k' \<le> 7 \<longrightarrow> k' \<le> 5)
          \<and> map_of ?d 5 = Some (PyFloat 0.001)"
    by (simp add: dict_keys_def)
  then have a: "find_learning_rate (PyDict ?d) 7 = Inr (PyFloat 0.001)"
    using t [where epoch = 7, THEN conjunct1] by blast
  have small: "\<forall>k \<in> set (dict_keys ?d). 3 < k" by (simp add: dict_keys_def)
  have self: "learning_rate ex_optimizer = PyDict ?d
              \<and> learning_rate_type ex_optimizer = ''custom_scheduler''"
    by (simp add: ex_optimizer_def)
  have b: "find_learning_rate (learning_rate ex_optimizer) 3 = Inr PyNone"
    using t [where epoch = 3, THEN conjunct2] small self by simp
  have c: "param_groups (optimizer (snd (update_optimizer_lr ex_scheduler_step ex_optimizer 3)))
     = map (\<lambda>g. dict_setitem g ''lr'' PyNone) (param_groups (optimizer ex_optimizer))"
    using t [where epoch = 3, THEN conjunct2] small self by blast
  show ?thesis using a b c by (simp add: ex_optimizer_def)
qed

text \<open>
  C5.  \<^verbatim>\<open>update_optimizer_lr\<close> follows the mode: in \<^verbatim>\<open>"constant"\<close> mode nothing changes and
  nothing is raised; in \<^verbatim>\<open>"scheduler"\<close> mode the scheduler takes exactly one step (the
  outcome is that of one call of \<^verbatim>\<open>scheduler.step()\<close>); in \<^verbatim>\<open>"custom_scheduler"\<close> mode
  the \<^verbatim>\<open>lr\<close> entry of every parameter group becomes the value of
  \<^verbatim>\<open>_find_learning_rate(epoch)\<close> and nothing else changes.
\<close>

theorem update_optimizer_lr_three_modes:
  "(learning_rate_type self = ''constant'' \<longrightarrow>
      update_optimizer_lr scheduler_step self epoch = (None, self))
   \<and> (learning_rate_type self = ''scheduler'' \<and> scheduler self = Some sch
        \<and> scheduler_step sch (optimizer self) = (exc, sch', opt') \<longrightarrow>
      update_optimizer_lr scheduler_step self epoch
        = (exc, self\<lparr>scheduler := Some sch', optimizer := opt'\<rparr>))
   \<and> (learning_rate_type self = ''custom_scheduler''
        \<and> find_learning_rate (learning_rate self) epoch = Inr v \<longrightarrow>
      update_optimizer_lr scheduler_step self epoch
        = (None, self\<lparr>optimizer := (optimizer self)
             \<lparr>param_groups := map (\<lambda>g. dict_setitem g ''lr'' v)
                                    (param_groups (optimizer self))\<rparr>\<rparr>)
      \<and> (\<forall>g \<in> set (param_groups (optimizer (snd (update_optimizer_lr scheduler_step self epoch)))).
            map_of g ''lr'' = Some v))"
proof (intro conjI impI)
  assume "learning_rate_type self = ''constant''"
  then show "update_optimizer_lr scheduler_step self epoch = (None, self)"
    by (simp add: update_optimizer_lr_def)
next
  assume "learning_rate_type self = ''scheduler'' \<and> scheduler self = Some sch
        \<and> scheduler_step sch (optimizer self) = (exc, sch', opt')"
  then show "update_optimizer_lr scheduler_step self epoch
        = (exc, self\<lparr>scheduler := Some sch', optimizer := opt'\<rparr>)"
    by (simp add: update_optimizer_lr_def)
next
  assume h: "learning_rate_type self = ''custom_scheduler''
        \<and> find_learning_rate (learning_rate self) epoch = Inr v"
  then have loop: "set_lr_loop (learning_rate self) epoch (param_groups (optimizer self))
                 = (None, map (\<lambda>g. dict_setitem g ''lr'' v) (param_groups (optimizer self)))"
    by (simp add: set_lr_loop_ok)
  show u: "update_optimizer_lr scheduler_step self epoch
        = (None, self\<lparr>optimizer := (optimizer self)
             \<lparr>param_groups := map (\<lambda>g. dict_setitem g ''lr'' v)
                                    (param_groups (optimizer self))\<rparr>\<rparr>)"
    using h loop by (simp add: update_optimizer_lr_def)
  show "\<forall>g \<in> set (param_groups (optimizer (snd (update_optimizer_lr scheduler_step self epoch)))).
            map_of g ''lr'' = Some v"
    unfolding u by (auto simp: map_of_dict_setitem)
qed

theorem update_optimizer_lr_three_modes_witness:
  "update_optimizer_lr ex_scheduler_step (ex_optimizer\<lparr>learning_rate_type := ''constant''\<rparr>) 7
     = (None, ex_optimizer\<lparr>learning_rate_type := ''constant''\<rparr>)
   \<and> update_optimizer_lr ex_scheduler_step
        (ex_optimizer\<lparr>learning_rate_type := ''scheduler'', scheduler := Some 3\<rparr>) 7
     = (None, ex_optimizer\<lparr>learning_rate_type := ''scheduler'', scheduler := Some 4\<rparr>)
   \<and> param_groups (optimizer (snd (update_optimizer_lr ex_scheduler_step ex_optimizer 7)))
     = [[(''lr'', PyFloat 0.001), (''eps'', PyObj ())]]"
proof -
  have f: "find_learning_rate (learning_rate ex_optimizer) 7 = Inr (PyFloat 0.001)"
    by (simp add: ex_optimizer_def find_learning_rate_def sorted_reverse_def dict_keys_def)
  have "update_optimizer_lr ex_scheduler_step (ex_optimizer\<lparr>learning_rate_type := ''constant''\<rparr>) 7
     = (None, ex_optimizer\<lparr>learning_rate_type := ''constant''\<rparr>)"
    using update_optimizer_lr_three_modes
      [of "ex_optimizer\<lparr>learning_rate_type := ''constant''\<rparr>" ex_scheduler_step 7]
    by simp
  moreover have "update_optimizer_lr ex_scheduler_step
        (ex_optimizer\<lparr>learning_rate_type := ''scheduler'', scheduler := Some 3\<rparr>) 7
     = (None, ex_optimizer\<lparr>learning_rate_type := ''scheduler'', scheduler := Some 4\<rparr>)"
    using update_optimizer_lr_three_modes
      [of "ex_optimizer\<lparr>learning_rate_type := ''scheduler'', scheduler := Some 3\<rparr>"
          ex_scheduler_step 7 3 None 4 "optimizer ex_optimizer"]
    by (simp add: ex_scheduler_step_def ex_optimizer_def)
  moreover have "param_groups (optimizer (snd (update_optimizer_lr ex_scheduler_step ex_optimizer 7)))
     = [[(''lr'', PyFloat 0.001), (''eps'', PyObj ())]]"
    using f update_optimizer_lr_three_modes [of ex_optimizer ex_scheduler_step 7 _ _ _ _ "PyFloat 0.001"]
    by (simp add: ex_optimizer_def)
  ultimately show ?thesis by simp
qed


section \<open>Properties of the free functions\<close>

subsection \<open>Uploading a sample\<close>

lemma upload_loop_distinct:
  fixes w :: "('g, 'ps, 'w, 'gr, 'v, 'fs) world"
  assumes "distinct (map fst (heap w sample))" and "distinct keys"
    and "set keys \<subseteq> fst ` set (heap w sample)"
    and "\<forall>kv \<in> set (heap w sample). fst kv \<in> set keys \<longrightarrow> fst kv \<notin> {''basin'', ''date''} \<longrightarrow>
           (\<exists>v'. to (snd kv) device = Inr v')"
  shows "upload_loop to w sample device keys =
           (None, w\<lparr>heap := (heap w)(sample := map (moved to device (set keys)) (heap w sample))\<rparr>)"
  using assms
proof (induction keys arbitrary: w)
  case Nil
  have "map (moved to device {}) (heap w sample) = heap w sample"
    by (induction "heap w sample") (auto simp: moved_def)
  then show ?case by simp
next
  case (Cons key keys)
  let ?d = "heap w sample"
  obtain v where v: "(key, v) \<in> set ?d" using Cons.prems(3) by auto
  then have look: "map_of ?d key = Some v" using Cons.prems(1) by simp
  show ?case
  proof (cases "key \<in> {''basin'', ''date''}")
    case True
    have same: "map (moved to device (set (key # keys))) ?d = map (moved to device (set keys)) ?d"
      using True by (intro map_cong) (auto simp: moved_def)
    have "upload_loop to w sample device keys =
           (None, w\<lparr>heap := (heap w)(sample := map (moved to device (set keys)) ?d)\<rparr>)"
      using Cons.prems by (intro Cons.IH) auto
    then have "upload_loop to w sample device keys =
           (None, w\<lparr>heap := (heap w)(sample := map (moved to device (set (key # keys))) ?d)\<rparr>)"
      by (simp only: same)
    moreover have "upload_loop to w sample device (key # keys) = upload_loop to w sample device keys"
      using True by simp
    ultimately show ?thesis by (simp only:)
  next
    case False
    obtain v' where v': "to v device = Inr v'"
      using Cons.prems(4) v False by fastforce
    let ?d' = "dict_setitem ?d key v'"
    let ?w' = "w\<lparr>heap := (heap w)(sample := ?d')\<rparr>"
    have d': "?d' = map (\<lambda>kv. if fst kv = key then (key, v') else kv) ?d"
      using Cons.prems(1) v by (rule dict_setitem_distinct)
    have keys': "map fst ?d' = map fst ?d"
      unfolding d' by (induction ?d) auto
    have hw': "heap ?w' sample = ?d'" by simp
    have ih: "upload_loop to ?w' sample device keys =
           (None, ?w'\<lparr>heap := (heap ?w')(sample := map (moved to device (set keys)) (heap ?w' sample))\<rparr>)"
    proof (rule Cons.IH)
      show "distinct (map fst (heap ?w' sample))" using keys' Cons.prems(1) by simp
      show "distinct keys" using Cons.prems(2) by simp
      show "set keys \<subseteq> fst ` set (heap ?w' sample)"
        using Cons.prems(3) keys' by (metis hw' list.set_map set_subset_Cons subset_trans)
      show "\<forall>kv \<in> set (heap ?w' sample). fst kv \<in> set keys \<longrightarrow> fst kv \<notin> {''basin'', ''date''} \<longrightarrow>
           (\<exists>v'. to (snd kv) device = Inr v')"
        using Cons.prems(2,4) unfolding hw' d' by auto
    qed
    have key_notin: "key \<notin> set keys" using Cons.prems(2) by simp
    have eqmap: "map (moved to device (set keys)) ?d' = map (moved to device (set (key # keys))) ?d"
      unfolding d' map_map
    proof (rule map_cong [OF refl])
      fix kv assume kv: "kv \<in> set ?d"
      show "(moved to device (set keys) \<circ> (\<lambda>kv. if fst kv = key then (key, v') else kv)) kv
             = moved to device (set (key # keys)) kv"
      proof (cases "fst kv = key")
        case True
        then have "kv = (key, v)"
          using kv v Cons.prems(1) by (metis eq_key_imp_eq_value prod.collapse)
        then show ?thesis using key_notin False v' by (simp add: moved_def)
      next
        case False
        then show ?thesis by (simp add: moved_def)
      qed
    qed
    have step: "upload_loop to w sample device (key # keys) = upload_loop to ?w' sample device keys"
      using False look v' by (simp add: dict_getitem_def)
    have collapse: "?w'\<lparr>heap := (heap ?w')(sample := map (moved to device (set keys)) (heap ?w' sample))\<rparr>
                = w\<lparr>heap := (heap w)(sample := map (moved to device (set keys)) ?d')\<rparr>"
      by simp
    show ?thesis
      unfolding step ih collapse eqmap ..
  qed
qed

text \<open>
  C10.  \<^verbatim>\<open>upload_to_device\<close> returns the address it was given, and the dictionary at
  that address has the same keys in the same order; the value under every key other than
  \<^verbatim>\<open>"basin"\<close> and \<^verbatim>\<open>"date"\<close> is what \<^verbatim>\<open>.to(device)\<close> returned for it, the entries under
  those two keys are as before, and nothing else in the world changes.  (The keys of a
  dictionary are distinct; every \<^verbatim>\<open>.to(device)\<close> that is called returns.)
\<close>

theorem upload_to_device_in_place:
  fixes w :: "('g, 'ps, 'w, 'gr, 'v, 'fs) world"
  assumes "distinct (dict_keys (heap w sample))"
    and "\<forall>kv \<in> set (heap w sample). fst kv \<notin> {''basin'', ''date''} \<longrightarrow>
           (\<exists>v'. to (snd kv) device = Inr v')"
  shows "upload_to_device to w sample device =
           (Inr sample,
            w\<lparr>heap := (heap w)(sample :=
                 map (\<lambda>kv. if fst kv \<in> {''basin'', ''date''} then kv
                            else (fst kv, projr (to (snd kv) device)))
                     (heap w sample))\<rparr>)"
proof -
  have "upload_loop to w sample device (dict_keys (heap w sample)) =
           (None, w\<lparr>heap := (heap w)(sample :=
              map (moved to device (set (dict_keys (heap w sample)))) (heap w sample))\<rparr>)"
    using assms by (intro upload_loop_distinct) (auto simp: dict_keys_def)
  moreover have "map (moved to device (set (dict_keys (heap w sample)))) (heap w sample)
     = map (\<lambda>kv. if fst kv \<in> {''basin'', ''date''} then kv
                            else (fst kv, projr (to (snd kv) device))) (heap w sample)"
    by (intro map_cong) (auto simp: moved_def dict_keys_def)
  ultimately show ?thesis by (simp add: upload_to_device_def)
qed

theorem upload_to_device_in_place_witness:
  "upload_to_device ex_to ex_world 0 ''cuda'' =
     (Inr 0, ex_world\<lparr>heap := (heap ex_world)
        (0 := [(''x_d'', ''t1@cuda''), (''basin'', ''b''), (''y_obs'', ''t2@cuda'')])\<rparr>)"
proof -
  have "distinct (dict_keys (heap ex_world 0))"
    by (simp add: ex_world_def dict_keys_def)
  moreover have "\<forall>kv \<in> set (heap ex_world 0). fst kv \<notin> {''basin'', ''date''} \<longrightarrow>
           (\<exists>v'. ex_to (snd kv) ''cuda'' = Inr v')"
    by (simp add: ex_to_def)
  ultimately show ?thesis
    using upload_to_device_in_place [of ex_world 0 ex_to "''cuda''"]
    by (simp add: ex_world_def ex_to_def)
qed

subsection \<open>Process-wide state\<close>












section \<open>Properties of the dataset readers\<close>













section \<open>Error handling across the two modules\<close>







end
